theory Spec2Isabelle
  imports Complex_Main
begin

section \<open>The town controller of Covey.Town: data model\<close>

text \<open>
  The development follows \<^verbatim>\<open>src/lib/CoveyTownController.ts\<close>. The controller keeps arrays of
  object references: the same \<^verbatim>\<open>Player\<close> object is held by the player list, by its session
  and by the caller, and the same \<^verbatim>\<open>ServerConversationArea\<close> object is held by the area list,
  by the caller and by every player whose active area it is. The methods mutate these
  objects in place, so the model keeps an explicit object store: a reference is a natural
  number, the store maps a reference to the object's current fields, and the controller's
  arrays are lists of references.

  A JavaScript \<^verbatim>\<open>number\<close> used as a coordinate is modelled as a real number: the
  controller only adds, subtracts, halves and compares coordinates.
\<close>

type_synonym playerRef = nat
type_synonym areaRef = nat
type_synonym listenerRef = nat

text \<open>
  Modelled from the spec: the direction a participant faces, the type \<^verbatim>\<open>Direction\<close> of
  \<^verbatim>\<open>CoveyTypes\<close>, which is not among the sources.
\<close>

datatype Direction = Front | Back | Left | Right

text \<open>
  Modelled from the spec: \<^verbatim>\<open>UserLocation\<close> of \<^verbatim>\<open>CoveyTypes\<close>, which is not among the
  sources. The spec gives a location as \<^verbatim>\<open>{x, y, facing-direction, active-conversation-label?}\<close>;
  the controller reads \<^verbatim>\<open>location.x\<close>, \<^verbatim>\<open>location.y\<close> and \<^verbatim>\<open>location.conversationLabel\<close>.
  The fields \<^verbatim>\<open>x\<close> and \<^verbatim>\<open>y\<close> carry the prefix \<open>loc_\<close> here.
\<close>

record UserLocation =
  loc_x :: real
  loc_y :: real
  rotation :: Direction
  conversationLabel :: "string option"

text \<open>
  Modelled from the spec: \<^verbatim>\<open>BoundingBox\<close> of \<^verbatim>\<open>client/TownsServiceClient\<close>, which is not
  among the sources: a centre \<^verbatim>\<open>{x, y}\<close>, a \<^verbatim>\<open>width\<close> and a \<^verbatim>\<open>height\<close>. The fields
  \<^verbatim>\<open>x\<close> and \<^verbatim>\<open>y\<close> carry the prefix \<open>bb_\<close> here.
\<close>

record BoundingBox =
  bb_x :: real
  bb_y :: real
  width :: real
  height :: real

text \<open>
  Modelled from the spec: \<^verbatim>\<open>ServerConversationArea\<close> of \<^verbatim>\<open>client/TownsServiceClient\<close>,
  which is not among the sources: a label, a topic, the array of occupant ids and the
  region. The controller reads and writes exactly these four fields.
\<close>

record ServerConversationArea =
  label :: string
  topic :: string
  occupantsByID :: "string list"
  boundingBox :: BoundingBox

text \<open>
  Modelled from the spec: the class \<^verbatim>\<open>Player\<close> of \<^verbatim>\<open>types/Player\<close>, which is not among
  the sources: an opaque id, the current location and the optional reference to the
  active conversation area. The field \<^verbatim>\<open>id\<close> is named \<open>player_id\<close> here.
\<close>

record Player =
  player_id :: string
  location :: UserLocation
  activeConversationArea :: "areaRef option"

text \<open>
  Modelled from the spec: the two methods of \<^verbatim>\<open>Player\<close> that the controller calls, which
  are not among the sources. The spec has the controller apply the full location update
  to the participant, and set or clear the participant's active-area reference: each
  method assigns the field it is named after.
\<close>

definition updateLocation :: "UserLocation \<Rightarrow> Player \<Rightarrow> Player" where
  "updateLocation loc p = p\<lparr>location := loc\<rparr>"

definition setActiveConversationArea :: "areaRef option \<Rightarrow> Player \<Rightarrow> Player" where
  "setActiveConversationArea a p = p\<lparr>activeConversationArea := a\<rparr>"

text \<open>
  Modelled from the spec: the class \<^verbatim>\<open>PlayerSession\<close> of \<^verbatim>\<open>types/PlayerSession\<close>, which
  is not among the sources: it pairs a player with an opaque credential token and with
  the video token, which is absent until provisioning has succeeded.
\<close>

record PlayerSession =
  player :: playerRef
  sessionToken :: string
  videoToken :: "string option"

text \<open>
  The callbacks of \<^verbatim>\<open>CoveyTownListener\<close>. A listener is an opaque sink here: a call of a
  callback is recorded as a pair of the listener and the event, in the order of the calls.
\<close>

datatype event =
    PlayerJoined playerRef
  | PlayerMoved playerRef
  | PlayerDisconnected playerRef
  | ConversationAreaUpdated areaRef
  | ConversationAreaDestroyed areaRef
  | TownDestroyed

type_synonym notification = "listenerRef \<times> event"

datatype error = ProvisioningError

text \<open>
  The controller's private fields, with the object store of the players and of the
  conversation areas they refer to. The fields are named after the getters.
\<close>

record Town =
  playerObjs :: "playerRef \<Rightarrow> Player"
  areaObjs :: "areaRef \<Rightarrow> ServerConversationArea"
  players :: "playerRef list"
  sessions :: "PlayerSession list"
  listeners :: "listenerRef list"
  conversationAreas :: "areaRef list"
  coveyTownID :: string
  friendlyName :: string
  townUpdatePassword :: string
  isPubliclyListed :: bool
  capacity :: nat

text \<open>\<^verbatim>\<open>this._listeners.forEach(listener => listener.on...(...))\<close>: one call for each listener, in
  registration order.\<close>

definition notify :: "Town \<Rightarrow> event \<Rightarrow> notification list" where
  "notify t e = map (\<lambda>listener. (listener, e)) (listeners t)"

section \<open>Geometry\<close>

text \<open>The eight coordinates of a region, in the order of the source's array.\<close>

definition getConversationAreaCoordinates :: "BoundingBox \<Rightarrow> real list" where
  "getConversationAreaCoordinates boudingBox =
     (let heightDiff = height boudingBox / 2;
          widthDiff = width boudingBox / 2;
          xBotLeft = bb_x boudingBox - widthDiff;
          yBotLeft = bb_y boudingBox - heightDiff;
          xTopRight = bb_x boudingBox + widthDiff;
          yTopRight = bb_y boudingBox + heightDiff;
          xTopLeft = bb_x boudingBox - widthDiff;
          yTopLeft = bb_y boudingBox + heightDiff;
          xBotRight = bb_x boudingBox + widthDiff;
          yBotRight = bb_y boudingBox - heightDiff
      in [xBotLeft, yBotLeft, xTopRight, yTopRight, xTopLeft, yTopLeft, xBotRight, yBotRight])"

text \<open>
  The loop of \<^verbatim>\<open>conversationOverlaps\<close> over the area list: it stops with \<^verbatim>\<open>true\<close> at the
  first area whose bounds overlap the given ones. Every caller in the controller passes
  the eight coordinates of \<open>getConversationAreaCoordinates\<close>, so the indices are in range.
\<close>

fun overlapsLoop :: "(areaRef \<Rightarrow> ServerConversationArea) \<Rightarrow> areaRef list \<Rightarrow> real list \<Rightarrow> bool" where
  "overlapsLoop objs [] mainCoordinates = False"
| "overlapsLoop objs (a # rest) mainCoordinates =
     (let newCoordinates = getConversationAreaCoordinates (boundingBox (objs a))
      in if \<not> (mainCoordinates ! 0 \<ge> newCoordinates ! 2 \<or>
                mainCoordinates ! 2 \<le> newCoordinates ! 0 \<or>
                mainCoordinates ! 3 \<le> newCoordinates ! 1 \<or>
                mainCoordinates ! 1 \<ge> newCoordinates ! 3)
         then True
         else overlapsLoop objs rest mainCoordinates)"

definition conversationOverlaps :: "Town \<Rightarrow> real list \<Rightarrow> bool" where
  "conversationOverlaps t mainCoordinates =
     overlapsLoop (areaObjs t) (conversationAreas t) mainCoordinates"

definition isPlayerInConversationArea :: "Player \<Rightarrow> real list \<Rightarrow> bool" where
  "isPlayerInConversationArea p conversationAreaCoordinates =
     (if loc_x (location p) > conversationAreaCoordinates ! 4 \<and>
         loc_x (location p) < conversationAreaCoordinates ! 6 \<and>
         loc_y (location p) < conversationAreaCoordinates ! 5 \<and>
         loc_y (location p) > conversationAreaCoordinates ! 7
      then True else False)"

section \<open>Array operations of the language\<close>

text \<open>
  \<^verbatim>\<open>Array.prototype.indexOf\<close>: the index of the first element equal to the value, or
  \<open>-1\<close> if there is none.
\<close>

fun indexOfFrom :: "'a list \<Rightarrow> 'a \<Rightarrow> int \<Rightarrow> int" where
  "indexOfFrom [] v k = - 1"
| "indexOfFrom (e # es) v k = (if e = v then k else indexOfFrom es v (k + 1))"

definition indexOf :: "'a list \<Rightarrow> 'a \<Rightarrow> int" where
  "indexOf xs v = indexOfFrom xs v 0"

text \<open>
  \<^verbatim>\<open>Array.prototype.splice(start, deleteCount)\<close>, as the array it leaves behind: a negative
  start counts from the end of the array, and both numbers are clamped to the array.
\<close>

definition splice :: "'a list \<Rightarrow> int \<Rightarrow> int \<Rightarrow> 'a list" where
  "splice xs start deleteCount =
     (let len = int (length xs);
          actualStart = (if start < 0 then max (len + start) 0 else min start len);
          actualDeleteCount = min (max deleteCount 0) (len - actualStart)
      in take (nat actualStart) xs @ drop (nat (actualStart + actualDeleteCount)) xs)"

text \<open>
  \<^verbatim>\<open>Array.prototype.slice(start, end)\<close>: a new array with the elements from \<open>start\<close> up to,
  not including, \<open>stop\<close>. The array it is called on stays as it is.
\<close>

definition slice :: "'a list \<Rightarrow> int \<Rightarrow> int \<Rightarrow> 'a list" where
  "slice xs start stop =
     (let len = int (length xs);
          k = (if start < 0 then max (len + start) 0 else min start len);
          final = (if stop < 0 then max (len + stop) 0 else min stop len)
      in take (nat (final - k)) (drop (nat k) xs))"

section \<open>The controller's operations\<close>

text \<open>
  The constructor. The town id is the friendly name if the environment's demo town id
  equals it, and a fresh id otherwise; the fresh id and the fresh password come from the
  generator \<^verbatim>\<open>nanoid\<close> and are parameters here, as is the object store the town runs in.
\<close>

definition CoveyTownController ::
  "(playerRef \<Rightarrow> Player) \<Rightarrow> (areaRef \<Rightarrow> ServerConversationArea) \<Rightarrow> string option \<Rightarrow>
   string \<Rightarrow> string \<Rightarrow> string \<Rightarrow> bool \<Rightarrow> Town" where
  "CoveyTownController pobjs aobjs demoTownID freshID freshPassword name listed =
     \<lparr>playerObjs = pobjs, areaObjs = aobjs,
      players = [], sessions = [], listeners = [], conversationAreas = [],
      coveyTownID = (if demoTownID = Some name then name else freshID),
      friendlyName = name,
      townUpdatePassword = freshPassword,
      isPubliclyListed = listed,
      capacity = 50\<rparr>"

definition occupancy :: "Town \<Rightarrow> nat" where
  "occupancy t = length (listeners t)"

text \<open>
  \<^verbatim>\<open>addPlayer\<close>. The video client is a collaborator outside the controller: the model takes
  its method \<^verbatim>\<open>getTokenForTown\<close> as a parameter that returns the token or fails, and the
  session token that \<^verbatim>\<open>new PlayerSession\<close> generates as another. The session and the player
  are pushed before the token is awaited; a rejected promise leaves \<^verbatim>\<open>addPlayer\<close> at the
  \<^verbatim>\<open>await\<close>, with nothing undone. The session object is the one pushed, so the assignment
  of the video token is visible in the session list.
\<close>

definition addPlayer ::
  "(string \<Rightarrow> string \<Rightarrow> error + string) \<Rightarrow> string \<Rightarrow> playerRef \<Rightarrow> Town \<Rightarrow>
   Town \<times> notification list \<times> (error + PlayerSession)" where
  "addPlayer getTokenForTown freshToken newPlayer t =
     (let theSession = \<lparr>player = newPlayer, sessionToken = freshToken, videoToken = None\<rparr>;
          t1 = t\<lparr>sessions := sessions t @ [theSession]\<rparr>;
          t2 = t1\<lparr>players := players t1 @ [newPlayer]\<rparr>
      in case getTokenForTown (coveyTownID t2) (player_id (playerObjs t2 newPlayer)) of
           Inl e \<Rightarrow> (t2, [], Inl e)
         | Inr token \<Rightarrow>
             (let theSession' = theSession\<lparr>videoToken := Some token\<rparr>;
                  t3 = t2\<lparr>sessions := butlast (sessions t2) @ [theSession']\<rparr>
              in (t3, notify t3 (PlayerJoined newPlayer), Inr theSession')))"

text \<open>
  The callback of the \<^verbatim>\<open>forEach\<close> in \<^verbatim>\<open>destroySession\<close>, for one area and its index. The
  call of \<^verbatim>\<open>slice\<close> builds a new array, which the source drops.
\<close>

definition destroySessionArea ::
  "PlayerSession \<Rightarrow> Town \<times> notification list \<Rightarrow> areaRef \<times> nat \<Rightarrow> Town \<times> notification list" where
  "destroySessionArea session st ac =
     (case st of (t, out) \<Rightarrow> case ac of (conversationArea, convoIndex) \<Rightarrow>
        if Some (label (areaObjs t conversationArea)) =
           conversationLabel (location (playerObjs t (player session)))
        then
          (let index = indexOf (occupantsByID (areaObjs t conversationArea))
                               (player_id (playerObjs t (player session)));
               t1 = t\<lparr>areaObjs := (areaObjs t)(conversationArea :=
                      (areaObjs t conversationArea)\<lparr>occupantsByID :=
                         splice (occupantsByID (areaObjs t conversationArea)) index 1\<rparr>)\<rparr>;
               out1 = out @ notify t1 (ConversationAreaUpdated conversationArea)
           in if length (occupantsByID (areaObjs t1 conversationArea)) = 0
              then (let dropped = slice (conversationAreas t1) (int convoIndex) 1
                    in (t1, out1 @ notify t1 (ConversationAreaDestroyed conversationArea)))
              else (t1, out1))
        else (t, out))"

definition destroySession :: "PlayerSession \<Rightarrow> Town \<Rightarrow> Town \<times> notification list" where
  "destroySession session t =
     (let t1 = t\<lparr>players := filter (\<lambda>p. player_id (playerObjs t p) \<noteq>
                                          player_id (playerObjs t (player session))) (players t)\<rparr>;
          t2 = t1\<lparr>sessions := filter (\<lambda>s. sessionToken s \<noteq> sessionToken session) (sessions t1)\<rparr>;
          st = foldl (destroySessionArea session) (t2, [])
                 (zip (conversationAreas t2) [0..<length (conversationAreas t2)])
      in (fst st, snd st @ notify (fst st) (PlayerDisconnected (player session))))"

text \<open>The callbacks of the two \<^verbatim>\<open>forEach\<close> loops of \<^verbatim>\<open>updatePlayerLocation\<close>.\<close>

definition leaveArea ::
  "playerRef \<Rightarrow> Town \<times> notification list \<Rightarrow> areaRef \<Rightarrow> Town \<times> notification list" where
  "leaveArea pl st conversationArea =
     (case st of (t, out) \<Rightarrow>
        if Some (label (areaObjs t conversationArea)) = conversationLabel (location (playerObjs t pl))
        then
          (let index = indexOf (occupantsByID (areaObjs t conversationArea))
                               (player_id (playerObjs t pl));
               t1 = t\<lparr>areaObjs := (areaObjs t)(conversationArea :=
                      (areaObjs t conversationArea)\<lparr>occupantsByID :=
                         splice (occupantsByID (areaObjs t conversationArea)) index 1\<rparr>)\<rparr>;
               t2 = t1\<lparr>playerObjs := (playerObjs t1)(pl :=
                      setActiveConversationArea None (playerObjs t1 pl))\<rparr>
           in (t2, out @ notify t2 (ConversationAreaUpdated conversationArea)))
        else (t, out))"

definition joinArea ::
  "playerRef \<Rightarrow> UserLocation \<Rightarrow> Town \<times> notification list \<Rightarrow> areaRef \<Rightarrow>
   Town \<times> notification list" where
  "joinArea pl loc st conversationArea =
     (case st of (t, out) \<Rightarrow>
        if Some (label (areaObjs t conversationArea)) = conversationLabel loc
        then
          (let t1 = t\<lparr>areaObjs := (areaObjs t)(conversationArea :=
                      (areaObjs t conversationArea)\<lparr>occupantsByID :=
                         occupantsByID (areaObjs t conversationArea) @
                         [player_id (playerObjs t pl)]\<rparr>)\<rparr>;
               t2 = t1\<lparr>playerObjs := (playerObjs t1)(pl :=
                      setActiveConversationArea (Some conversationArea) (playerObjs t1 pl))\<rparr>
           in (t2, out @ notify t2 (ConversationAreaUpdated conversationArea)))
        else (t, out))"

definition updatePlayerLocation ::
  "playerRef \<Rightarrow> UserLocation \<Rightarrow> Town \<Rightarrow> Town \<times> notification list" where
  "updatePlayerLocation pl loc t =
     (let st = (if conversationLabel (location (playerObjs t pl)) \<noteq> conversationLabel loc
                then (let st1 = foldl (leaveArea pl) (t, []) (conversationAreas t)
                      in foldl (joinArea pl loc) st1 (conversationAreas (fst st1)))
                else (t, []));
          t3 = (fst st)\<lparr>playerObjs := (playerObjs (fst st))(pl :=
                  updateLocation loc (playerObjs (fst st) pl))\<rparr>
      in (t3, snd st @ notify t3 (PlayerMoved pl)))"

text \<open>The label loop of \<^verbatim>\<open>addConversationArea\<close>: it stops at the first area with the label.\<close>

fun labelExistsLoop :: "(areaRef \<Rightarrow> ServerConversationArea) \<Rightarrow> areaRef list \<Rightarrow> string \<Rightarrow> bool" where
  "labelExistsLoop objs [] l = False"
| "labelExistsLoop objs (a # rest) l =
     (if label (objs a) = l then True else labelExistsLoop objs rest l)"

text \<open>The callback of the \<^verbatim>\<open>forEach\<close> over the players in \<^verbatim>\<open>addConversationArea\<close>.\<close>

definition addPlayerToArea :: "areaRef \<Rightarrow> real list \<Rightarrow> Town \<Rightarrow> playerRef \<Rightarrow> Town" where
  "addPlayerToArea ca conversationAreaCoordinates t pl =
     (let playerInConvoArea =
            isPlayerInConversationArea (playerObjs t pl) conversationAreaCoordinates
      in if playerInConvoArea
         then (let t1 = t\<lparr>areaObjs := (areaObjs t)(ca :=
                         (areaObjs t ca)\<lparr>occupantsByID :=
                            occupantsByID (areaObjs t ca) @ [player_id (playerObjs t pl)]\<rparr>)\<rparr>
               in t1\<lparr>playerObjs := (playerObjs t1)(pl :=
                      setActiveConversationArea (Some ca) (playerObjs t1 pl))\<rparr>)
         else t)"

text \<open>
  \<^verbatim>\<open>addConversationArea\<close>, on the reference of the area object that the caller passes. The
  result is the town, the calls made on the listeners and the returned boolean.
\<close>

definition addConversationArea :: "areaRef \<Rightarrow> Town \<Rightarrow> Town \<times> notification list \<times> bool" where
  "addConversationArea ca t =
     (if topic (areaObjs t ca) = '''' then (t, [], False)
      else if labelExistsLoop (areaObjs t) (conversationAreas t) (label (areaObjs t ca))
      then (t, [], False)
      else
        (let conversationAreaCoordinates =
               getConversationAreaCoordinates (boundingBox (areaObjs t ca))
         in if conversationOverlaps t conversationAreaCoordinates then (t, [], False)
            else
              (let t1 = foldl (addPlayerToArea ca conversationAreaCoordinates) t (players t);
                   out = notify t1 (ConversationAreaUpdated ca);
                   t2 = t1\<lparr>conversationAreas := conversationAreas t1 @ [ca]\<rparr>
               in (t2, out, True))))"

definition addTownListener :: "listenerRef \<Rightarrow> Town \<Rightarrow> Town" where
  "addTownListener listener t = t\<lparr>listeners := listeners t @ [listener]\<rparr>"

definition removeTownListener :: "listenerRef \<Rightarrow> Town \<Rightarrow> Town" where
  "removeTownListener listener t = t\<lparr>listeners := filter (\<lambda>v. v \<noteq> listener) (listeners t)\<rparr>"

definition getSessionByToken :: "string \<Rightarrow> Town \<Rightarrow> PlayerSession option" where
  "getSessionByToken token t = find (\<lambda>p. sessionToken p = token) (sessions t)"

definition disconnectAllPlayers :: "Town \<Rightarrow> Town \<times> notification list" where
  "disconnectAllPlayers t = (t, notify t TownDestroyed)"

text \<open>
  The towns that the operations can produce from a freshly constructed one. The setters of
  the friendly name and of the public-listing flag are the two remaining ways in which the
  source changes a town.
\<close>

inductive reachable :: "Town \<Rightarrow> bool" where
  constructed:
    "reachable (CoveyTownController pobjs aobjs demoTownID freshID freshPassword name listed)"
| added_player:
    "reachable t \<Longrightarrow> reachable (fst (addPlayer getTokenForTown freshToken newPlayer t))"
| destroyed_session:
    "reachable t \<Longrightarrow> reachable (fst (destroySession session t))"
| moved_player:
    "reachable t \<Longrightarrow> reachable (fst (updatePlayerLocation pl loc t))"
| added_area:
    "reachable t \<Longrightarrow> reachable (fst (addConversationArea ca t))"
| added_listener:
    "reachable t \<Longrightarrow> reachable (addTownListener listener t)"
| removed_listener:
    "reachable t \<Longrightarrow> reachable (removeTownListener listener t)"
| renamed:
    "reachable t \<Longrightarrow> reachable (t\<lparr>friendlyName := name\<rparr>)"
| relisted:
    "reachable t \<Longrightarrow> reachable (t\<lparr>isPubliclyListed := listed\<rparr>)"

section \<open>An example town\<close>

text \<open>
  A town with three players, a listener and two conversation areas that touch at
  \<open>x = 10\<close>. Alice stands in area \<open>A\<close> and is its only occupant; Bob stands outside
  both areas; Carol's location names \<open>A\<close> although \<open>A\<close> does not list her. The area
  objects 2 to 5 are candidates that are not in the town: \<open>C\<close> lies around Bob and
  arrives with an occupant of its own, \<open>D\<close> has no topic, the fifth reuses the label
  \<open>A\<close>, and \<open>E\<close> overlaps \<open>A\<close>.
\<close>

definition examplePlayers :: "playerRef \<Rightarrow> Player" where
  "examplePlayers =
     (\<lambda>r. \<lparr>player_id = ''nobody'',
            location = \<lparr>loc_x = 0, loc_y = 0, rotation = Front, conversationLabel = None\<rparr>,
            activeConversationArea = None\<rparr>)
     (0 := \<lparr>player_id = ''alice'',
             location = \<lparr>loc_x = 2, loc_y = 3, rotation = Front, conversationLabel = Some ''A''\<rparr>,
             activeConversationArea = Some 0\<rparr>,
      1 := \<lparr>player_id = ''bob'',
             location = \<lparr>loc_x = 30, loc_y = 5, rotation = Back, conversationLabel = None\<rparr>,
             activeConversationArea = None\<rparr>,
      2 := \<lparr>player_id = ''carol'',
             location = \<lparr>loc_x = 50, loc_y = 50, rotation = Left, conversationLabel = Some ''A''\<rparr>,
             activeConversationArea = None\<rparr>)"

definition exampleAreas :: "areaRef \<Rightarrow> ServerConversationArea" where
  "exampleAreas =
     (\<lambda>r. \<lparr>label = ''none'', topic = ''none'', occupantsByID = [],
            boundingBox = \<lparr>bb_x = 1000, bb_y = 1000, width = 1, height = 1\<rparr>\<rparr>)
     (0 := \<lparr>label = ''A'', topic = ''chat'', occupantsByID = [''alice''],
             boundingBox = \<lparr>bb_x = 5, bb_y = 5, width = 10, height = 10\<rparr>\<rparr>,
      1 := \<lparr>label = ''B'', topic = ''games'', occupantsByID = [],
             boundingBox = \<lparr>bb_x = 15, bb_y = 5, width = 10, height = 10\<rparr>\<rparr>,
      2 := \<lparr>label = ''C'', topic = ''news'', occupantsByID = [''ghost''],
             boundingBox = \<lparr>bb_x = 30, bb_y = 5, width = 10, height = 10\<rparr>\<rparr>,
      3 := \<lparr>label = ''D'', topic = '''', occupantsByID = [],
             boundingBox = \<lparr>bb_x = 100, bb_y = 100, width = 2, height = 2\<rparr>\<rparr>,
      4 := \<lparr>label = ''A'', topic = ''again'', occupantsByID = [],
             boundingBox = \<lparr>bb_x = 200, bb_y = 200, width = 2, height = 2\<rparr>\<rparr>,
      5 := \<lparr>label = ''E'', topic = ''close'', occupantsByID = [],
             boundingBox = \<lparr>bb_x = 8, bb_y = 5, width = 10, height = 10\<rparr>\<rparr>)"

definition aliceSession :: PlayerSession where
  "aliceSession = \<lparr>player = 0, sessionToken = ''s-alice'', videoToken = Some ''v-alice''\<rparr>"

definition bobSession :: PlayerSession where
  "bobSession = \<lparr>player = 1, sessionToken = ''s-bob'', videoToken = Some ''v-bob''\<rparr>"

definition carolSession :: PlayerSession where
  "carolSession = \<lparr>player = 2, sessionToken = ''s-carol'', videoToken = Some ''v-carol''\<rparr>"

definition exampleTown :: Town where
  "exampleTown =
     (CoveyTownController examplePlayers exampleAreas None ''1A2B3C4D'' ''secret'' ''Example'' True)
       \<lparr>players := [0, 1, 2],
        sessions := [aliceSession, bobSession, carolSession],
        listeners := [7],
        conversationAreas := [0, 1]\<rparr>"

text \<open>The same town with as many players as its capacity.\<close>

definition fullTown :: Town where
  "fullTown = exampleTown\<lparr>players := [0..<50]\<rparr>"

text \<open>The same town with area \<open>B\<close> alone, and with area \<open>A\<close> alone.\<close>

definition townOfB :: Town where
  "townOfB = exampleTown\<lparr>conversationAreas := [1]\<rparr>"

definition townOfA :: Town where
  "townOfA = exampleTown\<lparr>conversationAreas := [0]\<rparr>"

text \<open>Two video clients: one whose provisioning fails, one that issues a token.\<close>

definition failingVideoClient :: "string \<Rightarrow> string \<Rightarrow> error + string" where
  "failingVideoClient townID clientIdentity = Inl ProvisioningError"

definition workingVideoClient :: "string \<Rightarrow> string \<Rightarrow> error + string" where
  "workingVideoClient townID clientIdentity = Inr (townID @ ''/'' @ clientIdentity)"

text \<open>Three locations that the examples move a player to.\<close>

definition insideB :: UserLocation where
  "insideB = \<lparr>loc_x = 12, loc_y = 3, rotation = Right, conversationLabel = Some ''B''\<rparr>"

definition stillInsideA :: UserLocation where
  "stillInsideA = \<lparr>loc_x = 3, loc_y = 3, rotation = Right, conversationLabel = Some ''A''\<rparr>"

definition farAway :: UserLocation where
  "farAway = \<lparr>loc_x = 51, loc_y = 50, rotation = Left, conversationLabel = None\<rparr>"

section \<open>Geometry: results\<close>

lemma coordinates_nth:
  "getConversationAreaCoordinates b ! 0 = bb_x b - width b / 2"
  "getConversationAreaCoordinates b ! 1 = bb_y b - height b / 2"
  "getConversationAreaCoordinates b ! 2 = bb_x b + width b / 2"
  "getConversationAreaCoordinates b ! 3 = bb_y b + height b / 2"
  "getConversationAreaCoordinates b ! 4 = bb_x b - width b / 2"
  "getConversationAreaCoordinates b ! 5 = bb_y b + height b / 2"
  "getConversationAreaCoordinates b ! 6 = bb_x b + width b / 2"
  "getConversationAreaCoordinates b ! 7 = bb_y b - height b / 2"
  by (simp_all add: getConversationAreaCoordinates_def Let_def)

lemma labelExistsLoop_iff:
  "labelExistsLoop objs as l \<longleftrightarrow> (\<exists>a\<in>set as. label (objs a) = l)"
  by (induction as) auto

lemma overlapsLoop_iff:
  "overlapsLoop objs as m \<longleftrightarrow> (\<exists>a\<in>set as. overlapsLoop objs [a] m)"
  by (induction as) (auto simp: Let_def)

lemmas example_defs =
  examplePlayers_def exampleAreas_def aliceSession_def bobSession_def carolSession_def
  exampleTown_def fullTown_def townOfA_def townOfB_def failingVideoClient_def
  workingVideoClient_def insideB_def stillInsideA_def farAway_def CoveyTownController_def

text \<open>
  C5. Index 0 of the coordinates is the left edge of a region, index 1 the lower edge,
  index 2 the right edge and index 3 the upper edge. If a region and the only area of a
  town share an edge coordinate (the right edge of one is the left edge of the other, or
  the upper edge of one is the lower edge of the other), then \<open>conversationOverlaps\<close>
  answers that the region overlaps nothing: equality at an edge counts as not overlapping.
\<close>

theorem touching_edges_do_not_overlap:
  assumes "conversationAreas t = [b]"
    and "getConversationAreaCoordinates a ! 2 =
           getConversationAreaCoordinates (boundingBox (areaObjs t b)) ! 0 \<or>
         getConversationAreaCoordinates a ! 0 =
           getConversationAreaCoordinates (boundingBox (areaObjs t b)) ! 2 \<or>
         getConversationAreaCoordinates a ! 3 =
           getConversationAreaCoordinates (boundingBox (areaObjs t b)) ! 1 \<or>
         getConversationAreaCoordinates a ! 1 =
           getConversationAreaCoordinates (boundingBox (areaObjs t b)) ! 3"
  shows "\<not> conversationOverlaps t (getConversationAreaCoordinates a)"
  using assms unfolding conversationOverlaps_def
  by (auto simp: Let_def)

text \<open>
  The spec's example: area \<open>A\<close> spans \<open>x\<close> from 0 to 10, area \<open>B\<close> spans \<open>x\<close> from 10 to
  20, over the same range of \<open>y\<close>.
\<close>

theorem touching_edges_do_not_overlap_witness:
  "conversationAreas townOfB = [1] \<and>
   getConversationAreaCoordinates (boundingBox (exampleAreas 0)) ! 2 = 10 \<and>
   getConversationAreaCoordinates (boundingBox (areaObjs townOfB 1)) ! 0 = 10 \<and>
   \<not> conversationOverlaps townOfB (getConversationAreaCoordinates (boundingBox (exampleAreas 0)))"
proof -
  have a: "getConversationAreaCoordinates (boundingBox (exampleAreas 0)) ! 2 = 10"
    by (simp add: exampleAreas_def coordinates_nth)
  have b: "getConversationAreaCoordinates (boundingBox (areaObjs townOfB 1)) ! 0 = 10"
    by (simp add: example_defs coordinates_nth)
  have c: "conversationAreas townOfB = [1]"
    by (simp add: townOfB_def)
  from a b have e: "getConversationAreaCoordinates (boundingBox (exampleAreas 0)) ! 2 =
      getConversationAreaCoordinates (boundingBox (areaObjs townOfB 1)) ! 0"
    by simp
  have "\<not> conversationOverlaps townOfB
           (getConversationAreaCoordinates (boundingBox (exampleAreas 0)))"
    by (rule touching_edges_do_not_overlap [OF c]) (use e in blast)
  with a b c show ?thesis by blast
qed

text \<open>
  C6. The overlap test is symmetric: testing the region of area \<open>a\<close> against a town whose
  only area is \<open>b\<close> gives the same answer as testing the region of \<open>b\<close> against a town
  whose only area is \<open>a\<close>.
\<close>

theorem overlap_test_symmetric:
  "conversationOverlaps (t\<lparr>conversationAreas := [b]\<rparr>)
      (getConversationAreaCoordinates (boundingBox (areaObjs t a))) =
   conversationOverlaps (t\<lparr>conversationAreas := [a]\<rparr>)
      (getConversationAreaCoordinates (boundingBox (areaObjs t b)))"
  unfolding conversationOverlaps_def by (auto simp: Let_def)

text \<open>Areas \<open>A\<close> and \<open>E\<close> overlap, whichever of the two is the candidate.\<close>

theorem overlap_test_symmetric_witness:
  "conversationOverlaps (exampleTown\<lparr>conversationAreas := [5]\<rparr>)
      (getConversationAreaCoordinates (boundingBox (areaObjs exampleTown 0))) \<and>
   conversationOverlaps (exampleTown\<lparr>conversationAreas := [0]\<rparr>)
      (getConversationAreaCoordinates (boundingBox (areaObjs exampleTown 5)))"
proof -
  have "conversationOverlaps (exampleTown\<lparr>conversationAreas := [0]\<rparr>)
      (getConversationAreaCoordinates (boundingBox (areaObjs exampleTown 5)))"
    by (simp add: example_defs conversationOverlaps_def getConversationAreaCoordinates_def Let_def)
  with overlap_test_symmetric [where t = exampleTown and b = 5 and a = 0] show ?thesis by simp
qed

section \<open>Array operations: results\<close>

lemma indexOfFrom_absent: "v \<notin> set xs \<Longrightarrow> indexOfFrom xs v k = - 1"
  by (induction xs arbitrary: k) auto

lemma indexOf_absent: "v \<notin> set xs \<Longrightarrow> indexOf xs v = - 1"
  by (simp add: indexOf_def indexOfFrom_absent)

lemma splice_last: "splice xs (- 1) 1 = butlast xs"
proof (cases "xs = []")
  case True
  then show ?thesis by (simp add: splice_def)
next
  case False
  then have "nat (int (length xs) - 1) = length xs - 1" by simp
  with False show ?thesis
    by (simp add: splice_def Let_def butlast_conv_take)
qed

section \<open>What the loops leave alone\<close>

lemma destroySessionArea_keeps:
  "players (fst (destroySessionArea s st ac)) = players (fst st)"
  "sessions (fst (destroySessionArea s st ac)) = sessions (fst st)"
  "listeners (fst (destroySessionArea s st ac)) = listeners (fst st)"
  "conversationAreas (fst (destroySessionArea s st ac)) = conversationAreas (fst st)"
  "playerObjs (fst (destroySessionArea s st ac)) = playerObjs (fst st)"
  "capacity (fst (destroySessionArea s st ac)) = capacity (fst st)"
  "label (areaObjs (fst (destroySessionArea s st ac)) b) = label (areaObjs (fst st) b)"
  by (auto simp: destroySessionArea_def Let_def split: prod.splits)

lemma foldl_destroySessionArea_keeps:
  "players (fst (foldl (destroySessionArea s) st acs)) = players (fst st)"
  "sessions (fst (foldl (destroySessionArea s) st acs)) = sessions (fst st)"
  "listeners (fst (foldl (destroySessionArea s) st acs)) = listeners (fst st)"
  "conversationAreas (fst (foldl (destroySessionArea s) st acs)) = conversationAreas (fst st)"
  "playerObjs (fst (foldl (destroySessionArea s) st acs)) = playerObjs (fst st)"
  "capacity (fst (foldl (destroySessionArea s) st acs)) = capacity (fst st)"
  "label (areaObjs (fst (foldl (destroySessionArea s) st acs)) b) = label (areaObjs (fst st) b)"
  by (induction acs arbitrary: st) (simp_all add: destroySessionArea_keeps)

lemma leaveArea_keeps:
  "players (fst (leaveArea pl st a)) = players (fst st)"
  "sessions (fst (leaveArea pl st a)) = sessions (fst st)"
  "listeners (fst (leaveArea pl st a)) = listeners (fst st)"
  "conversationAreas (fst (leaveArea pl st a)) = conversationAreas (fst st)"
  "capacity (fst (leaveArea pl st a)) = capacity (fst st)"
  "label (areaObjs (fst (leaveArea pl st a)) b) = label (areaObjs (fst st) b)"
  "location (playerObjs (fst (leaveArea pl st a)) q) = location (playerObjs (fst st) q)"
  "player_id (playerObjs (fst (leaveArea pl st a)) q) = player_id (playerObjs (fst st) q)"
  "notify (fst (leaveArea pl st a)) e = notify (fst st) e"
  by (auto simp: leaveArea_def Let_def notify_def setActiveConversationArea_def split: prod.splits)

lemma foldl_leaveArea_keeps:
  "players (fst (foldl (leaveArea pl) st as)) = players (fst st)"
  "sessions (fst (foldl (leaveArea pl) st as)) = sessions (fst st)"
  "listeners (fst (foldl (leaveArea pl) st as)) = listeners (fst st)"
  "conversationAreas (fst (foldl (leaveArea pl) st as)) = conversationAreas (fst st)"
  "capacity (fst (foldl (leaveArea pl) st as)) = capacity (fst st)"
  "label (areaObjs (fst (foldl (leaveArea pl) st as)) b) = label (areaObjs (fst st) b)"
  "location (playerObjs (fst (foldl (leaveArea pl) st as)) q) = location (playerObjs (fst st) q)"
  "player_id (playerObjs (fst (foldl (leaveArea pl) st as)) q) = player_id (playerObjs (fst st) q)"
  "notify (fst (foldl (leaveArea pl) st as)) e = notify (fst st) e"
  by (induction as arbitrary: st) (simp_all add: leaveArea_keeps)

lemma joinArea_keeps:
  "players (fst (joinArea pl loc st a)) = players (fst st)"
  "sessions (fst (joinArea pl loc st a)) = sessions (fst st)"
  "listeners (fst (joinArea pl loc st a)) = listeners (fst st)"
  "conversationAreas (fst (joinArea pl loc st a)) = conversationAreas (fst st)"
  "capacity (fst (joinArea pl loc st a)) = capacity (fst st)"
  "label (areaObjs (fst (joinArea pl loc st a)) b) = label (areaObjs (fst st) b)"
  "location (playerObjs (fst (joinArea pl loc st a)) q) = location (playerObjs (fst st) q)"
  "player_id (playerObjs (fst (joinArea pl loc st a)) q) = player_id (playerObjs (fst st) q)"
  "notify (fst (joinArea pl loc st a)) e = notify (fst st) e"
  by (auto simp: joinArea_def Let_def notify_def setActiveConversationArea_def split: prod.splits)

lemma foldl_joinArea_keeps:
  "players (fst (foldl (joinArea pl loc) st as)) = players (fst st)"
  "sessions (fst (foldl (joinArea pl loc) st as)) = sessions (fst st)"
  "listeners (fst (foldl (joinArea pl loc) st as)) = listeners (fst st)"
  "conversationAreas (fst (foldl (joinArea pl loc) st as)) = conversationAreas (fst st)"
  "capacity (fst (foldl (joinArea pl loc) st as)) = capacity (fst st)"
  "label (areaObjs (fst (foldl (joinArea pl loc) st as)) b) = label (areaObjs (fst st) b)"
  "location (playerObjs (fst (foldl (joinArea pl loc) st as)) q) = location (playerObjs (fst st) q)"
  "player_id (playerObjs (fst (foldl (joinArea pl loc) st as)) q) = player_id (playerObjs (fst st) q)"
  "notify (fst (foldl (joinArea pl loc) st as)) e = notify (fst st) e"
  by (induction as arbitrary: st) (simp_all add: joinArea_keeps)

lemma addPlayerToArea_keeps:
  "players (addPlayerToArea ca cs t p) = players t"
  "sessions (addPlayerToArea ca cs t p) = sessions t"
  "listeners (addPlayerToArea ca cs t p) = listeners t"
  "conversationAreas (addPlayerToArea ca cs t p) = conversationAreas t"
  "capacity (addPlayerToArea ca cs t p) = capacity t"
  "label (areaObjs (addPlayerToArea ca cs t p) b) = label (areaObjs t b)"
  "player_id (playerObjs (addPlayerToArea ca cs t p) q) = player_id (playerObjs t q)"
  "location (playerObjs (addPlayerToArea ca cs t p) q) = location (playerObjs t q)"
  "isPlayerInConversationArea (playerObjs (addPlayerToArea ca cs t p) q) cs' =
     isPlayerInConversationArea (playerObjs t q) cs'"
  by (auto simp: addPlayerToArea_def Let_def setActiveConversationArea_def
        isPlayerInConversationArea_def)

lemma foldl_addPlayerToArea_keeps:
  "players (foldl (addPlayerToArea ca cs) t ps) = players t"
  "sessions (foldl (addPlayerToArea ca cs) t ps) = sessions t"
  "listeners (foldl (addPlayerToArea ca cs) t ps) = listeners t"
  "conversationAreas (foldl (addPlayerToArea ca cs) t ps) = conversationAreas t"
  "capacity (foldl (addPlayerToArea ca cs) t ps) = capacity t"
  "label (areaObjs (foldl (addPlayerToArea ca cs) t ps) b) = label (areaObjs t b)"
  by (induction ps arbitrary: t) (simp_all add: addPlayerToArea_keeps)

section \<open>Joining a town\<close>

text \<open>
  C1, as the source has it. When the provisioning call of \<open>addPlayer\<close> fails, the session,
  still without a video token, and the player have already been appended to the session
  list and to the player list, and they stay there; the rest of the town is as before, no
  listener is called, and the failure goes to the caller.
\<close>

theorem addPlayer_failure_keeps_registration:
  assumes "getTokenForTown (coveyTownID t) (player_id (playerObjs t newPlayer)) = Inl e"
  shows "addPlayer getTokenForTown freshToken newPlayer t =
           (t\<lparr>sessions := sessions t @
                 [\<lparr>player = newPlayer, sessionToken = freshToken, videoToken = None\<rparr>],
              players := players t @ [newPlayer]\<rparr>,
            [], Inl e)"
  using assms by (simp add: addPlayer_def Let_def)

theorem addPlayer_failure_keeps_registration_witness:
  "failingVideoClient (coveyTownID exampleTown) (player_id (playerObjs exampleTown 3)) =
     Inl ProvisioningError \<and>
   players (fst (addPlayer failingVideoClient ''s-dave'' 3 exampleTown)) = [0, 1, 2, 3] \<and>
   sessions (fst (addPlayer failingVideoClient ''s-dave'' 3 exampleTown)) =
     [aliceSession, bobSession, carolSession,
      \<lparr>player = 3, sessionToken = ''s-dave'', videoToken = None\<rparr>] \<and>
   snd (addPlayer failingVideoClient ''s-dave'' 3 exampleTown) = ([], Inl ProvisioningError)"
proof -
  have h: "failingVideoClient (coveyTownID exampleTown) (player_id (playerObjs exampleTown 3)) =
             Inl ProvisioningError"
    by (simp add: failingVideoClient_def)
  show ?thesis
    using h addPlayer_failure_keeps_registration
      [where getTokenForTown = failingVideoClient and t = exampleTown and newPlayer = 3 and
        e = ProvisioningError and freshToken = "''s-dave''"]
    by (simp add: exampleTown_def)
qed

text \<open>
  C1, as the claim has it, fails: in the example town a fourth player joins, provisioning
  fails, and neither the player list nor the session list is what it was before the call.
\<close>

theorem addPlayer_failure_counterexample:
  "failingVideoClient (coveyTownID exampleTown) (player_id (playerObjs exampleTown 3)) =
     Inl ProvisioningError \<and>
   players (fst (addPlayer failingVideoClient ''s-dave'' 3 exampleTown)) \<noteq> players exampleTown \<and>
   sessions (fst (addPlayer failingVideoClient ''s-dave'' 3 exampleTown)) \<noteq> sessions exampleTown"
  by (simp add: example_defs addPlayer_def Let_def)

text \<open>
  C10. When provisioning succeeds, \<open>addPlayer\<close> returns the session and appends the player,
  whatever the capacity says: the capacity is neither read nor changed, and in a town that
  already holds as many players as its capacity the player list is longer than the capacity
  afterwards. The constructor sets the capacity to 50.
\<close>

theorem addPlayer_ignores_capacity:
  assumes "getTokenForTown (coveyTownID t) (player_id (playerObjs t newPlayer)) = Inr token"
  shows "snd (snd (addPlayer getTokenForTown freshToken newPlayer t)) =
           Inr \<lparr>player = newPlayer, sessionToken = freshToken, videoToken = Some token\<rparr> \<and>
         players (fst (addPlayer getTokenForTown freshToken newPlayer t)) = players t @ [newPlayer] \<and>
         capacity (fst (addPlayer getTokenForTown freshToken newPlayer t)) = capacity t \<and>
         (capacity t \<le> length (players t) \<longrightarrow>
            capacity (fst (addPlayer getTokenForTown freshToken newPlayer t)) <
            length (players (fst (addPlayer getTokenForTown freshToken newPlayer t)))) \<and>
         capacity (CoveyTownController pobjs aobjs demoTownID freshID freshPassword name listed) = 50"
  using assms by (simp add: addPlayer_def Let_def CoveyTownController_def)

text \<open>A town of capacity 50 with 50 players admits the next one.\<close>

theorem addPlayer_ignores_capacity_witness:
  "workingVideoClient (coveyTownID fullTown) (player_id (playerObjs fullTown 50)) =
     Inr ''1A2B3C4D/nobody'' \<and>
   capacity fullTown = 50 \<and>
   length (players fullTown) = 50 \<and>
   length (players (fst (addPlayer workingVideoClient ''s-new'' 50 fullTown))) = 51 \<and>
   capacity (fst (addPlayer workingVideoClient ''s-new'' 50 fullTown)) = 50"
proof -
  have h: "workingVideoClient (coveyTownID fullTown) (player_id (playerObjs fullTown 50)) =
             Inr ''1A2B3C4D/nobody''"
    by (simp add: example_defs)
  have c: "capacity fullTown = 50" and l: "length (players fullTown) = 50"
    by (simp_all add: example_defs)
  from addPlayer_ignores_capacity
      [where getTokenForTown = workingVideoClient and t = fullTown and
        newPlayer = 50 and token = "''1A2B3C4D/nobody''" and freshToken = "''s-new''"] c l h
  show ?thesis
    by simp
qed

section \<open>Occupancy\<close>

text \<open>
  C9. The occupancy of a town is the number of its listeners, not of its players: it is
  the length of the listener list, \<open>addPlayer\<close> and \<open>destroySession\<close> leave it as it is,
  and \<open>addTownListener\<close> adds one to it.
\<close>

theorem occupancy_counts_listeners:
  "occupancy t = length (listeners t) \<and>
   occupancy (fst (addPlayer getTokenForTown freshToken newPlayer t)) = occupancy t \<and>
   occupancy (fst (destroySession session t)) = occupancy t \<and>
   occupancy (addTownListener listener t) = occupancy t + 1"
  by (simp add: occupancy_def addPlayer_def destroySession_def addTownListener_def Let_def
        foldl_destroySessionArea_keeps split: sum.splits)

text \<open>The example town has three players and an occupancy of one.\<close>

theorem occupancy_counts_listeners_witness:
  "length (players exampleTown) = 3 \<and>
   occupancy exampleTown = 1 \<and>
   occupancy (fst (addPlayer workingVideoClient ''s-dave'' 3 exampleTown)) = 1 \<and>
   occupancy (fst (destroySession aliceSession exampleTown)) = 1 \<and>
   occupancy (addTownListener 8 exampleTown) = 2"
proof -
  have "length (players exampleTown) = 3" and "length (listeners exampleTown) = 1"
    by (simp_all add: exampleTown_def)
  with occupancy_counts_listeners [of exampleTown workingVideoClient "''s-dave''" 3 aliceSession 8]
  show ?thesis by simp
qed

section \<open>Leaving a town\<close>

lemma destroySession_keeps_area_list:
  "conversationAreas (fst (destroySession session t)) = conversationAreas t"
  by (simp add: destroySession_def Let_def foldl_destroySessionArea_keeps)

text \<open>
  C2, at an input where the source misses it. Alice is the only occupant of area \<open>A\<close>.
  When her session is destroyed, \<open>A\<close> loses her id and is empty, the listener is told
  that \<open>A\<close> was updated and then that it was destroyed, and yet \<open>A\<close> is still in the
  town's area list: the source calls \<^verbatim>\<open>slice\<close>, which copies, where \<^verbatim>\<open>splice\<close> would remove.
\<close>

theorem destroySession_leaves_emptied_area:
  "occupantsByID (areaObjs exampleTown 0) =
     [player_id (playerObjs exampleTown (player aliceSession))] \<and>
   occupantsByID (areaObjs (fst (destroySession aliceSession exampleTown)) 0) = [] \<and>
   conversationAreas (fst (destroySession aliceSession exampleTown)) = [0, 1] \<and>
   snd (destroySession aliceSession exampleTown) =
     [(7, ConversationAreaUpdated 0), (7, ConversationAreaDestroyed 0), (7, PlayerDisconnected 0)]"
  by (simp add: example_defs destroySession_def destroySessionArea_def Let_def notify_def
        indexOf_def splice_def slice_def upt_rec)

section \<open>Moving\<close>

lemma leaveArea_out:
  "snd (leaveArea pl st a) =
     snd st @ (if Some (label (areaObjs (fst st) a)) =
                  conversationLabel (location (playerObjs (fst st) pl))
               then notify (fst st) (ConversationAreaUpdated a) else [])"
  by (auto simp: leaveArea_def Let_def notify_def split: prod.splits)

lemma foldl_leaveArea_out:
  "snd (foldl (leaveArea pl) st as) =
     snd st @ concat (map (\<lambda>a. notify (fst st) (ConversationAreaUpdated a))
       (filter (\<lambda>a. Some (label (areaObjs (fst st) a)) =
                     conversationLabel (location (playerObjs (fst st) pl))) as))"
  by (induction as arbitrary: st) (simp_all add: leaveArea_keeps leaveArea_out)

lemma joinArea_out:
  "snd (joinArea pl loc st a) =
     snd st @ (if Some (label (areaObjs (fst st) a)) = conversationLabel loc
               then notify (fst st) (ConversationAreaUpdated a) else [])"
  by (auto simp: joinArea_def Let_def notify_def split: prod.splits)

lemma foldl_joinArea_out:
  "snd (foldl (joinArea pl loc) st as) =
     snd st @ concat (map (\<lambda>a. notify (fst st) (ConversationAreaUpdated a))
       (filter (\<lambda>a. Some (label (areaObjs (fst st) a)) = conversationLabel loc) as))"
  by (induction as arbitrary: st) (simp_all add: joinArea_keeps joinArea_out)

lemma notify_playerObjs_update: "notify (t\<lparr>playerObjs := f\<rparr>) e = notify t e"
  by (simp add: notify_def)

text \<open>
  C7. The calls that \<open>updatePlayerLocation\<close> makes on the listeners, in order. If the
  conversation label changes: an update for every area that carries the old label, then
  an update for every area that carries the new label, then the move of the player. If
  the label stays: the move alone. Each notification goes to every listener in
  registration order.
\<close>

theorem location_update_notification_order:
  "snd (updatePlayerLocation pl loc t) =
     (if conversationLabel (location (playerObjs t pl)) \<noteq> conversationLabel loc
      then concat (map (\<lambda>a. notify t (ConversationAreaUpdated a))
             (filter (\<lambda>a. Some (label (areaObjs t a)) =
                           conversationLabel (location (playerObjs t pl)))
                (conversationAreas t))) @
           concat (map (\<lambda>a. notify t (ConversationAreaUpdated a))
             (filter (\<lambda>a. Some (label (areaObjs t a)) = conversationLabel loc)
                (conversationAreas t)))
      else []) @
     notify t (PlayerMoved pl)"
  by (simp add: updatePlayerLocation_def Let_def notify_playerObjs_update
        foldl_leaveArea_keeps foldl_leaveArea_out foldl_joinArea_keeps foldl_joinArea_out)

text \<open>
  Alice moves from area \<open>A\<close> into area \<open>B\<close>: the listener hears of \<open>A\<close>, of \<open>B\<close> and
  of the move, in this order. Alice moves within \<open>A\<close>: the listener hears of the move.
\<close>

theorem location_update_notification_order_witness:
  "conversationLabel (location (playerObjs exampleTown 0)) = Some ''A'' \<and>
   conversationLabel insideB = Some ''B'' \<and>
   conversationLabel stillInsideA = Some ''A'' \<and>
   snd (updatePlayerLocation 0 insideB exampleTown) =
     [(7, ConversationAreaUpdated 0), (7, ConversationAreaUpdated 1), (7, PlayerMoved 0)] \<and>
   snd (updatePlayerLocation 0 stillInsideA exampleTown) = [(7, PlayerMoved 0)]"
  using location_update_notification_order [of 0 insideB exampleTown]
        location_update_notification_order [of 0 stillInsideA exampleTown]
  by (simp add: example_defs notify_def)

section \<open>A label without membership\<close>

lemma destroySessionArea_other:
  "b \<noteq> a \<Longrightarrow> areaObjs (fst (destroySessionArea s st (b, j))) a = areaObjs (fst st) a"
  by (auto simp: destroySessionArea_def Let_def split: prod.splits)

lemma foldl_destroySessionArea_other:
  "a \<notin> fst ` set acs \<Longrightarrow>
   areaObjs (fst (foldl (destroySessionArea s) st acs)) a = areaObjs (fst st) a"
proof (induction acs arbitrary: st)
  case Nil
  then show ?case by simp
next
  case (Cons ac acs)
  obtain b j where ac: "ac = (b, j)" by (cases ac)
  with Cons.prems have "b \<noteq> a" "a \<notin> fst ` set acs" by auto
  then show ?case
    using Cons.IH [of "destroySessionArea s st (b, j)"] ac
    by (simp add: destroySessionArea_other)
qed

lemma destroySessionArea_stale:
  assumes "Some (label (areaObjs (fst st) a)) =
           conversationLabel (location (playerObjs (fst st) (player s)))"
    and "player_id (playerObjs (fst st) (player s)) \<notin> set (occupantsByID (areaObjs (fst st) a))"
  shows "occupantsByID (areaObjs (fst (destroySessionArea s st (a, j))) a) =
         butlast (occupantsByID (areaObjs (fst st) a))"
  using assms
  by (auto simp: destroySessionArea_def Let_def indexOf_absent splice_last split: prod.splits)

lemma foldl_destroySessionArea_stale:
  assumes "distinct (map fst acs)" and "a \<in> fst ` set acs"
    and "Some (label (areaObjs (fst st) a)) =
         conversationLabel (location (playerObjs (fst st) (player s)))"
    and "player_id (playerObjs (fst st) (player s)) \<notin> set (occupantsByID (areaObjs (fst st) a))"
  shows "occupantsByID (areaObjs (fst (foldl (destroySessionArea s) st acs)) a) =
         butlast (occupantsByID (areaObjs (fst st) a))"
  using assms
proof (induction acs arbitrary: st)
  case Nil
  then show ?case by simp
next
  case (Cons ac acs)
  obtain b j where ac: "ac = (b, j)" by (cases ac)
  show ?case
  proof (cases "b = a")
    case True
    with Cons.prems ac have "a \<notin> fst ` set acs" by auto
    then show ?thesis
      using ac True Cons.prems(3,4)
      by (simp add: foldl_destroySessionArea_other destroySessionArea_stale)
  next
    case False
    with Cons.prems ac have in_rest: "a \<in> fst ` set acs" and d: "distinct (map fst acs)" by auto
    have same: "areaObjs (fst (destroySessionArea s st (b, j))) a = areaObjs (fst st) a"
      using False by (simp add: destroySessionArea_other)
    show ?thesis
      using Cons.IH [of "destroySessionArea s st (b, j)", OF d in_rest] Cons.prems(3,4) ac same
      by (simp add: destroySessionArea_keeps)
  qed
qed

lemma fst_set_zip_upt: "fst ` set (zip xs [0..<length xs]) = set xs"
proof -
  have "map fst (zip xs [0..<length xs]) = xs" by simp
  from arg_cong [OF this, of set] show ?thesis by (simp only: set_map)
qed

lemma leaveArea_other:
  "b \<noteq> a \<Longrightarrow> areaObjs (fst (leaveArea pl st b)) a = areaObjs (fst st) a"
  by (auto simp: leaveArea_def Let_def split: prod.splits)

lemma foldl_leaveArea_other:
  "a \<notin> set as \<Longrightarrow> areaObjs (fst (foldl (leaveArea pl) st as)) a = areaObjs (fst st) a"
  by (induction as arbitrary: st) (simp_all add: leaveArea_other)

lemma leaveArea_stale:
  assumes "Some (label (areaObjs (fst st) a)) =
           conversationLabel (location (playerObjs (fst st) pl))"
    and "player_id (playerObjs (fst st) pl) \<notin> set (occupantsByID (areaObjs (fst st) a))"
  shows "occupantsByID (areaObjs (fst (leaveArea pl st a)) a) =
         butlast (occupantsByID (areaObjs (fst st) a))"
  using assms
  by (auto simp: leaveArea_def Let_def indexOf_absent splice_last split: prod.splits)

lemma foldl_leaveArea_stale:
  assumes "distinct as" and "a \<in> set as"
    and "Some (label (areaObjs (fst st) a)) =
         conversationLabel (location (playerObjs (fst st) pl))"
    and "player_id (playerObjs (fst st) pl) \<notin> set (occupantsByID (areaObjs (fst st) a))"
  shows "occupantsByID (areaObjs (fst (foldl (leaveArea pl) st as)) a) =
         butlast (occupantsByID (areaObjs (fst st) a))"
  using assms
proof (induction as arbitrary: st)
  case Nil
  then show ?case by simp
next
  case (Cons b as)
  show ?case
  proof (cases "b = a")
    case True
    with Cons.prems have "a \<notin> set as" by auto
    then show ?thesis
      using True Cons.prems(3,4)
      by (simp add: foldl_leaveArea_other leaveArea_stale)
  next
    case False
    with Cons.prems have in_rest: "a \<in> set as" and d: "distinct as" by auto
    have same: "areaObjs (fst (leaveArea pl st b)) a = areaObjs (fst st) a"
      using False by (simp add: leaveArea_other)
    show ?thesis
      using Cons.IH [of "leaveArea pl st b", OF d in_rest] Cons.prems(3,4) same
      by (simp add: leaveArea_keeps)
  qed
qed

lemma joinArea_other_label:
  "Some (label (areaObjs (fst st) a)) \<noteq> conversationLabel loc \<Longrightarrow>
   areaObjs (fst (joinArea pl loc st b)) a = areaObjs (fst st) a"
  by (auto simp: joinArea_def Let_def split: prod.splits)

lemma foldl_joinArea_other_label:
  "Some (label (areaObjs (fst st) a)) \<noteq> conversationLabel loc \<Longrightarrow>
   areaObjs (fst (foldl (joinArea pl loc) st as)) a = areaObjs (fst st) a"
  by (induction as arbitrary: st) (simp_all add: joinArea_other_label)

text \<open>
  C8. Let the label recorded in a player's location be the label of an area of the town
  whose occupant list does not hold the player's id; the area list holds each area object
  once, as it does in every reachable town. Then \<open>destroySession\<close> for a session of this
  player, and \<open>updatePlayerLocation\<close> to a location with another label, leave the area
  with its occupant list cut by its last entry: \<^verbatim>\<open>indexOf\<close> is \<open>-1\<close>, and
  \<^verbatim>\<open>splice(-1, 1)\<close> deletes the final element. (Of an empty list nothing is left to delete.)
\<close>

theorem stale_label_removes_last_occupant:
  assumes "distinct (conversationAreas t)"
    and "a \<in> set (conversationAreas t)"
    and "Some (label (areaObjs t a)) = conversationLabel (location (playerObjs t pl))"
    and "player_id (playerObjs t pl) \<notin> set (occupantsByID (areaObjs t a))"
  shows "(player session = pl \<longrightarrow>
            occupantsByID (areaObjs (fst (destroySession session t)) a) =
            butlast (occupantsByID (areaObjs t a))) \<and>
         (conversationLabel loc \<noteq> conversationLabel (location (playerObjs t pl)) \<longrightarrow>
            occupantsByID (areaObjs (fst (updatePlayerLocation pl loc t)) a) =
            butlast (occupantsByID (areaObjs t a)))"
proof (intro conjI impI)
  assume s: "player session = pl"
  let ?t2 = "t\<lparr>players := filter (\<lambda>p. player_id (playerObjs t p) \<noteq>
                                     player_id (playerObjs t (player session))) (players t),
                sessions := filter (\<lambda>s. sessionToken s \<noteq> sessionToken session) (sessions t)\<rparr>"
  have "occupantsByID (areaObjs (fst (foldl (destroySessionArea session) (?t2, [])
           (zip (conversationAreas ?t2) [0..<length (conversationAreas ?t2)]))) a) =
        butlast (occupantsByID (areaObjs (fst (?t2, []::notification list)) a))"
    by (rule foldl_destroySessionArea_stale) (use assms s in \<open>simp_all add: fst_set_zip_upt\<close>)
  then show "occupantsByID (areaObjs (fst (destroySession session t)) a) =
             butlast (occupantsByID (areaObjs t a))"
    by (simp add: destroySession_def Let_def)
next
  assume c: "conversationLabel loc \<noteq> conversationLabel (location (playerObjs t pl))"
  let ?st1 = "foldl (leaveArea pl) (t, []) (conversationAreas t)"
  have l: "occupantsByID (areaObjs (fst ?st1) a) =
           butlast (occupantsByID (areaObjs (fst (t, []::notification list)) a))"
    by (rule foldl_leaveArea_stale) (use assms in simp_all)
  have "Some (label (areaObjs (fst ?st1) a)) \<noteq> conversationLabel loc"
    using assms(3) c by (simp add: foldl_leaveArea_keeps)
  then have "areaObjs (fst (foldl (joinArea pl loc) ?st1 (conversationAreas (fst ?st1)))) a =
             areaObjs (fst ?st1) a"
    by (rule foldl_joinArea_other_label)
  with l c show "occupantsByID (areaObjs (fst (updatePlayerLocation pl loc t)) a) =
                 butlast (occupantsByID (areaObjs t a))"
    by (simp add: updatePlayerLocation_def Let_def)
qed

text \<open>
  Carol's location names area \<open>A\<close>, whose only occupant is Alice. When Carol's session is
  destroyed, or when Carol moves to a location without a label, Alice's id is removed.
\<close>

theorem stale_label_removes_last_occupant_witness:
  "distinct (conversationAreas exampleTown) \<and>
   0 \<in> set (conversationAreas exampleTown) \<and>
   Some (label (areaObjs exampleTown 0)) = conversationLabel (location (playerObjs exampleTown 2)) \<and>
   player_id (playerObjs exampleTown 2) \<notin> set (occupantsByID (areaObjs exampleTown 0)) \<and>
   player carolSession = 2 \<and>
   conversationLabel farAway \<noteq> conversationLabel (location (playerObjs exampleTown 2)) \<and>
   occupantsByID (areaObjs exampleTown 0) = [''alice''] \<and>
   occupantsByID (areaObjs (fst (destroySession carolSession exampleTown)) 0) = [] \<and>
   occupantsByID (areaObjs (fst (updatePlayerLocation 2 farAway exampleTown)) 0) = []"
proof -
  have h1: "distinct (conversationAreas exampleTown)"
    and h2: "0 \<in> set (conversationAreas exampleTown)"
    by (simp_all add: exampleTown_def)
  have h3: "Some (label (areaObjs exampleTown 0)) =
            conversationLabel (location (playerObjs exampleTown 2))"
    and h4: "player_id (playerObjs exampleTown 2) \<notin> set (occupantsByID (areaObjs exampleTown 0))"
    and h5: "occupantsByID (areaObjs exampleTown 0) = [''alice'']"
    by (simp_all add: example_defs)
  have h6: "player carolSession = 2"
    by (simp add: carolSession_def)
  have h7: "conversationLabel farAway \<noteq> conversationLabel (location (playerObjs exampleTown 2))"
    by (simp add: example_defs)
  from stale_label_removes_last_occupant [OF h1 h2 h3 h4, of carolSession farAway] h5 h6 h7
  have "occupantsByID (areaObjs (fst (destroySession carolSession exampleTown)) 0) = [] \<and>
        occupantsByID (areaObjs (fst (updatePlayerLocation 2 farAway exampleTown)) 0) = []"
    by simp
  with h1 h2 h3 h4 h5 h6 h7 show ?thesis by blast
qed

section \<open>Creating a conversation area\<close>

text \<open>
  C4. If the candidate has an empty topic, or an area of the town carries its label, or
  its region overlaps the region of an area of the town, then \<open>addConversationArea\<close>
  returns \<^verbatim>\<open>false\<close>, calls no listener and leaves the town as it was: the area list,
  the player list and every player and area object, the candidate among them.
\<close>

theorem rejected_area_changes_nothing:
  assumes "topic (areaObjs t ca) = '''' \<or>
           (\<exists>a\<in>set (conversationAreas t). label (areaObjs t a) = label (areaObjs t ca)) \<or>
           (\<exists>a\<in>set (conversationAreas t).
              conversationOverlaps (t\<lparr>conversationAreas := [a]\<rparr>)
                (getConversationAreaCoordinates (boundingBox (areaObjs t ca))))"
  shows "addConversationArea ca t = (t, [], False)"
proof -
  have ov: "conversationOverlaps t m \<longleftrightarrow>
            (\<exists>a\<in>set (conversationAreas t). conversationOverlaps (t\<lparr>conversationAreas := [a]\<rparr>) m)"
    for m
    unfolding conversationOverlaps_def
    using overlapsLoop_iff [of "areaObjs t" "conversationAreas t" m]
    by simp
  show ?thesis
    using assms unfolding addConversationArea_def Let_def
    by (auto simp: labelExistsLoop_iff ov)
qed

text \<open>
  The three rejections in the example town: candidate \<open>D\<close> has no topic, the fifth
  candidate reuses the label \<open>A\<close>, candidate \<open>E\<close> overlaps area \<open>A\<close>.
\<close>

theorem rejected_area_changes_nothing_witness:
  "topic (areaObjs exampleTown 3) = '''' \<and>
   addConversationArea 3 exampleTown = (exampleTown, [], False) \<and>
   0 \<in> set (conversationAreas exampleTown) \<and>
   label (areaObjs exampleTown 0) = label (areaObjs exampleTown 4) \<and>
   addConversationArea 4 exampleTown = (exampleTown, [], False) \<and>
   conversationOverlaps townOfA
     (getConversationAreaCoordinates (boundingBox (areaObjs exampleTown 5))) \<and>
   addConversationArea 5 exampleTown = (exampleTown, [], False)"
proof -
  have h3: "topic (areaObjs exampleTown 3) = ''''"
    by (simp add: example_defs)
  have in0: "0 \<in> set (conversationAreas exampleTown)"
    by (simp add: exampleTown_def)
  have h4: "label (areaObjs exampleTown 0) = label (areaObjs exampleTown 4)"
    by (simp add: example_defs)
  have h5: "conversationOverlaps townOfA
              (getConversationAreaCoordinates (boundingBox (areaObjs exampleTown 5)))"
    by (simp add: example_defs conversationOverlaps_def getConversationAreaCoordinates_def Let_def)
  then have h5': "conversationOverlaps (exampleTown\<lparr>conversationAreas := [0]\<rparr>)
              (getConversationAreaCoordinates (boundingBox (areaObjs exampleTown 5)))"
    by (simp add: townOfA_def)
  have r3: "addConversationArea 3 exampleTown = (exampleTown, [], False)"
    by (rule rejected_area_changes_nothing) (simp add: h3)
  have r4: "addConversationArea 4 exampleTown = (exampleTown, [], False)"
    by (rule rejected_area_changes_nothing) (use in0 h4 in blast)
  have r5: "addConversationArea 5 exampleTown = (exampleTown, [], False)"
    by (rule rejected_area_changes_nothing) (use in0 h5' in blast)
  from h3 in0 h4 h5 r3 r4 r5 show ?thesis by blast
qed

lemma addPlayerToArea_occupants:
  "occupantsByID (areaObjs (addPlayerToArea ca cs t p) ca) =
     occupantsByID (areaObjs t ca) @
     (if isPlayerInConversationArea (playerObjs t p) cs then [player_id (playerObjs t p)] else [])"
  by (simp add: addPlayerToArea_def Let_def)

lemma foldl_addPlayerToArea_occupants:
  "occupantsByID (areaObjs (foldl (addPlayerToArea ca cs) t ps) ca) =
     occupantsByID (areaObjs t ca) @
     map (\<lambda>p. player_id (playerObjs t p))
       (filter (\<lambda>p. isPlayerInConversationArea (playerObjs t p) cs) ps)"
  by (induction ps arbitrary: t) (simp_all add: addPlayerToArea_keeps addPlayerToArea_occupants)

lemma addPlayerToArea_active:
  "activeConversationArea (playerObjs (addPlayerToArea ca cs t p) q) =
     (if q = p \<and> isPlayerInConversationArea (playerObjs t p) cs then Some ca
      else activeConversationArea (playerObjs t q))"
  by (simp add: addPlayerToArea_def Let_def setActiveConversationArea_def)

lemma foldl_addPlayerToArea_active:
  "activeConversationArea (playerObjs (foldl (addPlayerToArea ca cs) t ps) q) =
     (if q \<in> set ps \<and> isPlayerInConversationArea (playerObjs t q) cs then Some ca
      else activeConversationArea (playerObjs t q))"
  by (induction ps arbitrary: t) (auto simp: addPlayerToArea_keeps addPlayerToArea_active)

text \<open>
  What an accepted call does: the ids of the players strictly inside the region are
  appended, in the order of the player list, to the occupant list that the candidate
  already carries; exactly these players get the candidate as their active area; the
  candidate is appended to the area list.
\<close>

lemma accepted_area_occupants:
  assumes "snd (snd (addConversationArea ca t))"
  shows "occupantsByID (areaObjs (fst (addConversationArea ca t)) ca) =
           occupantsByID (areaObjs t ca) @
           map (\<lambda>p. player_id (playerObjs t p))
             (filter (\<lambda>p. isPlayerInConversationArea (playerObjs t p)
                        (getConversationAreaCoordinates (boundingBox (areaObjs t ca)))) (players t))"
    and "activeConversationArea (playerObjs (fst (addConversationArea ca t)) q) =
           (if q \<in> set (players t) \<and>
               isPlayerInConversationArea (playerObjs t q)
                 (getConversationAreaCoordinates (boundingBox (areaObjs t ca)))
            then Some ca else activeConversationArea (playerObjs t q))"
    and "conversationAreas (fst (addConversationArea ca t)) = conversationAreas t @ [ca]"
  using assms
  by (simp_all add: addConversationArea_def Let_def foldl_addPlayerToArea_occupants
        foldl_addPlayerToArea_active foldl_addPlayerToArea_keeps split: if_splits)

text \<open>
  C3, at an input where the source misses it. Candidate \<open>C\<close> arrives with the occupant
  \<open>ghost\<close>; Bob is the one player inside its region. The call is accepted, Bob's active
  area becomes \<open>C\<close>, and the occupant list of \<open>C\<close> is \<open>ghost\<close> followed by \<open>bob\<close>: the
  occupants passed in are kept, where the documentation of the method says that they are
  ignored.
\<close>

theorem addConversationArea_keeps_passed_occupants:
  "occupantsByID (areaObjs exampleTown 2) = [''ghost''] \<and>
   map (\<lambda>p. player_id (playerObjs exampleTown p))
     (filter (\<lambda>p. isPlayerInConversationArea (playerObjs exampleTown p)
                (getConversationAreaCoordinates (boundingBox (areaObjs exampleTown 2))))
        (players exampleTown)) = [''bob''] \<and>
   snd (snd (addConversationArea 2 exampleTown)) = True \<and>
   activeConversationArea (playerObjs (fst (addConversationArea 2 exampleTown)) 1) = Some 2 \<and>
   occupantsByID (areaObjs (fst (addConversationArea 2 exampleTown)) 2) = [''ghost'', ''bob'']"
  by (simp add: example_defs addConversationArea_def addPlayerToArea_def Let_def notify_def
        conversationOverlaps_def getConversationAreaCoordinates_def isPlayerInConversationArea_def
        setActiveConversationArea_def)

section \<open>Reachable towns\<close>

lemma addPlayer_keeps_areas:
  "conversationAreas (fst (addPlayer g tok p t)) = conversationAreas t"
  "areaObjs (fst (addPlayer g tok p t)) = areaObjs t"
  by (simp_all add: addPlayer_def Let_def split: sum.splits)

lemma destroySession_keeps_labels:
  "label (areaObjs (fst (destroySession session t)) b) = label (areaObjs t b)"
  by (simp add: destroySession_def Let_def foldl_destroySessionArea_keeps)

lemma updatePlayerLocation_keeps_areas:
  "conversationAreas (fst (updatePlayerLocation pl loc t)) = conversationAreas t"
  "label (areaObjs (fst (updatePlayerLocation pl loc t)) b) = label (areaObjs t b)"
  by (simp_all add: updatePlayerLocation_def Let_def foldl_leaveArea_keeps foldl_joinArea_keeps)

lemma addConversationArea_labels:
  "label (areaObjs (fst (addConversationArea ca t)) b) = label (areaObjs t b)"
  by (simp add: addConversationArea_def Let_def foldl_addPlayerToArea_keeps)

lemma addConversationArea_area_list:
  "conversationAreas (fst (addConversationArea ca t)) =
     (if snd (snd (addConversationArea ca t)) then conversationAreas t @ [ca]
      else conversationAreas t)"
  by (simp add: addConversationArea_def Let_def foldl_addPlayerToArea_keeps)

lemma accepted_label_is_new:
  "snd (snd (addConversationArea ca t)) \<Longrightarrow>
   label (areaObjs t ca) \<notin> (\<lambda>a. label (areaObjs t a)) ` set (conversationAreas t)"
  by (auto simp: addConversationArea_def Let_def labelExistsLoop_iff split: if_splits)

text \<open>
  In every reachable town the areas of the area list have pairwise different labels; in
  particular no area object is in the list twice.
\<close>

lemma reachable_distinct_labels:
  "reachable t \<Longrightarrow> distinct (map (\<lambda>a. label (areaObjs t a)) (conversationAreas t))"
proof (induction rule: reachable.induct)
  case (constructed pobjs aobjs demoTownID freshID freshPassword name listed)
  then show ?case by (simp add: CoveyTownController_def)
next
  case (added_player t getTokenForTown freshToken newPlayer)
  then show ?case by (simp add: addPlayer_keeps_areas)
next
  case (destroyed_session t session)
  then show ?case by (simp add: destroySession_keeps_area_list destroySession_keeps_labels)
next
  case (moved_player t pl loc)
  then show ?case by (simp add: updatePlayerLocation_keeps_areas)
next
  case (added_area t ca)
  then show ?case
    using accepted_label_is_new [of ca t]
    by (simp add: addConversationArea_area_list addConversationArea_labels)
next
  case (added_listener t listener)
  then show ?case by (simp add: addTownListener_def)
next
  case (removed_listener t listener)
  then show ?case by (simp add: removeTownListener_def)
next
  case (renamed t name)
  then show ?case by simp
next
  case (relisted t listed)
  then show ?case by simp
qed

lemma reachable_distinct_areas: "reachable t \<Longrightarrow> distinct (conversationAreas t)"
  using reachable_distinct_labels [of t] by (simp add: distinct_map)

end
